theory Spec2Isabelle
  imports Complex_Main
begin

section \<open>JavaScript numbers\<close>

text \<open>
  The dashboard computes with JavaScript numbers.  A number is modelled as a finite
  real, one of the two infinities, or NaN.  The special values follow ECMAScript: NaN
  propagates through every operation and compares false with everything,
  \<open>0 * Infinity\<close>, \<open>Infinity - Infinity\<close>, \<open>0 / 0\<close> and \<open>Infinity / Infinity\<close> are
  NaN, and \<open>x / 0\<close> is an infinity of the sign of \<open>x\<close>.

  The arithmetic on two finite numbers is the exact arithmetic of the reals.  The
  program computes on IEEE doubles: a result is rounded to the nearest double, and a
  result beyond the largest double (about \<open>1.8e308\<close>) is an infinity.  Neither the
  rounding nor the overflow is modelled, and neither is the sign of zero (a zero divisor
  is the positive zero, the only one this program can produce as a divisor).  What
  follows is stated with this in mind:
  \<^item> a statement about the structure of the results (which entries there are, which
    cycle a value belongs to, which test chooses the break-even cycle, which expression
    a value is computed by) is stated in terms of the operations \<open>js_add\<close>, \<open>js_mul\<close>,
    \<open>js_div\<close>, ... themselves and does not depend on what they do on finite numbers;
  \<^item> a statement about the value of the effective utilization is an identity of exact
    arithmetic, which the doubles follow up to rounding;
  \<^item> a statement about a decimal value of the results is stated within a tolerance.
\<close>

datatype jsnum = Fin real | PInf | NInf | NaN

definition signed_inf :: "real \<Rightarrow> jsnum" where
  "signed_inf s = (if s = 0 then NaN else if 0 < s then PInf else NInf)"

fun js_neg :: "jsnum \<Rightarrow> jsnum" where
  "js_neg (Fin x) = Fin (- x)"
| "js_neg PInf = NInf"
| "js_neg NInf = PInf"
| "js_neg NaN = NaN"

fun js_add :: "jsnum \<Rightarrow> jsnum \<Rightarrow> jsnum" where
  "js_add NaN b = NaN"
| "js_add a NaN = NaN"
| "js_add (Fin x) (Fin y) = Fin (x + y)"
| "js_add (Fin x) b = b"
| "js_add a (Fin y) = a"
| "js_add PInf PInf = PInf"
| "js_add NInf NInf = NInf"
| "js_add PInf NInf = NaN"
| "js_add NInf PInf = NaN"

definition js_sub :: "jsnum \<Rightarrow> jsnum \<Rightarrow> jsnum" where
  "js_sub a b = js_add a (js_neg b)"

fun js_mul :: "jsnum \<Rightarrow> jsnum \<Rightarrow> jsnum" where
  "js_mul NaN b = NaN"
| "js_mul a NaN = NaN"
| "js_mul (Fin x) (Fin y) = Fin (x * y)"
| "js_mul (Fin x) PInf = signed_inf x"
| "js_mul (Fin x) NInf = signed_inf (- x)"
| "js_mul PInf (Fin y) = signed_inf y"
| "js_mul NInf (Fin y) = signed_inf (- y)"
| "js_mul PInf PInf = PInf"
| "js_mul NInf NInf = PInf"
| "js_mul PInf NInf = NInf"
| "js_mul NInf PInf = NInf"

fun js_div :: "jsnum \<Rightarrow> jsnum \<Rightarrow> jsnum" where
  "js_div NaN b = NaN"
| "js_div a NaN = NaN"
| "js_div (Fin x) (Fin y) = (if y = 0 then signed_inf x else Fin (x / y))"
| "js_div (Fin x) b = Fin 0"
| "js_div PInf (Fin y) = (if 0 \<le> y then PInf else NInf)"
| "js_div NInf (Fin y) = (if 0 \<le> y then NInf else PInf)"
| "js_div a b = NaN"

text \<open>\<open>x ** N\<close> for a counter \<open>N\<close>, a natural number.\<close>

fun js_pow :: "jsnum \<Rightarrow> nat \<Rightarrow> jsnum" where
  "js_pow a 0 = Fin 1"
| "js_pow (Fin x) n = Fin (x ^ n)"
| "js_pow PInf n = PInf"
| "js_pow NInf n = (if odd n then NInf else PInf)"
| "js_pow NaN n = NaN"

text \<open>The relational operator \<open><=\<close> and strict equality \<open>===\<close> on numbers.\<close>

fun js_le :: "jsnum \<Rightarrow> jsnum \<Rightarrow> bool" where
  "js_le NaN b = False"
| "js_le a NaN = False"
| "js_le (Fin x) (Fin y) = (x \<le> y)"
| "js_le NInf b = True"
| "js_le a PInf = True"
| "js_le a b = False"

definition js_strict_eq :: "jsnum \<Rightarrow> jsnum \<Rightarrow> bool" where
  "js_strict_eq a b = (a \<noteq> NaN \<and> b \<noteq> NaN \<and> a = b)"

definition Math_min :: "jsnum \<Rightarrow> jsnum \<Rightarrow> jsnum" where
  "Math_min a b = (if a = NaN \<or> b = NaN then NaN else if js_le a b then a else b)"

definition Math_max :: "jsnum \<Rightarrow> jsnum \<Rightarrow> jsnum" where
  "Math_max a b = (if a = NaN \<or> b = NaN then NaN else if js_le a b then b else a)"

definition Number_isFinite :: "jsnum \<Rightarrow> bool" where
  "Number_isFinite n = (case n of Fin x \<Rightarrow> True | _ \<Rightarrow> False)"

text \<open>
  \<open>null * 1000\<close> converts \<open>null\<close> to the number 0; a variable that is either
  \<open>null\<close> or a number is a \<open>jsnum option\<close>.
\<close>

definition ToNumber :: "jsnum option \<Rightarrow> jsnum" where
  "ToNumber v = (case v of None \<Rightarrow> Fin 0 | Some x \<Rightarrow> x)"

section \<open>The amortization engine\<close>

subsection \<open>Effective utilization\<close>

text \<open>
  \<^verbatim>\<open>function U_eff_js(N, q) { if (q === 1) return N; return (1 - q ** N) / (1 - q); }\<close>
  The same function is nested in all three implementations.
\<close>

definition U_eff_js :: "nat \<Rightarrow> jsnum \<Rightarrow> jsnum" where
  "U_eff_js N q =
     (if js_strict_eq q (Fin 1) then Fin (real N)
      else js_div (js_sub (Fin 1) (js_pow q N)) (js_sub (Fin 1) q))"

subsection \<open>Data model\<close>

text \<open>
  The fixed constants object, and the scenario parameters.  The parameters are numbers in
  the first and in the single-scenario implementation, and strings or numbers in the
  second, so the record is polymorphic in the type of its fields.
\<close>

record constants =
  m_Al_mup :: jsnum
  EF_Al_prim :: jsnum
  E_fw_init :: jsnum
  E_single_shot :: jsnum
  E_use :: jsnum
  E_clean :: jsnum
  T_FACTOR_PER_100KM :: jsnum

record 'v params =
  E_manu_mup :: 'v
  KM_ONE_WAY :: 'v
  p_ret :: 'v
  p_scr :: 'v
  E_EoL_mup :: 'v

text \<open>The object pushed onto \<open>data\<close> in each iteration.\<close>

record point =
  cycle :: nat
  MUP_g :: jsnum
  SUP_g :: jsnum

text \<open>The variables the loop assigns; \<open>null\<close> is \<open>None\<close>.\<close>

record locals =
  data :: "point list"
  firstCost :: "jsnum option"
  lastCost :: "jsnum option"
  breakEven :: "nat option"

text \<open>The quantities computed before the loop that its body reads.\<close>

record env =
  E_start :: jsnum
  E_cycle :: jsnum
  E_EoL :: jsnum
  E_single :: jsnum
  surv_q :: jsnum

text \<open>The object \<open>computeSeries\<close> returns.\<close>

record series_result =
  res_data :: "point list"
  res_q :: jsnum
  res_E_cycle_g :: jsnum
  res_firstCost_g :: jsnum
  res_lastCost_g :: jsnum
  res_breakEven :: "nat option"

subsection \<open>The loop of \<open>computeSeries\<close>\<close>

text \<open>
  \<^verbatim>\<open>const U = U_eff_js(N, q);
  const E_total_lifetime = E_start + U * E_cycle + E_EoL_mup;
  const amort = E_total_lifetime / U; // kg\<close>
\<close>

definition amort :: "env \<Rightarrow> nat \<Rightarrow> jsnum" where
  "amort e N =
     (let U = U_eff_js N (surv_q e);
          E_total_lifetime = js_add (js_add (E_start e) (js_mul U (E_cycle e))) (E_EoL e)
      in js_div E_total_lifetime U)"

definition loop_body :: "env \<Rightarrow> nat \<Rightarrow> locals \<Rightarrow> locals" where
  "loop_body e N s =
     (let a = amort e N;
          s1 = (if firstCost s = None then s\<lparr>firstCost := Some a\<rparr> else s);
          s2 = s1\<lparr>lastCost := Some a\<rparr>;
          s3 = s2\<lparr>data := data s2 @
                 [\<lparr>cycle = N, MUP_g = js_mul a (Fin 1000),
                   SUP_g = js_mul (E_single e) (Fin 1000)\<rparr>]\<rparr>
      in if breakEven s3 = None \<and> js_le a (E_single e)
         then s3\<lparr>breakEven := Some N\<rparr> else s3)"

text \<open>
  \<^verbatim>\<open>for (let N = 1; N <= N_max_top; N++) { ... }\<close>, entered at counter \<open>N\<close>.  The
  counter is a natural number.  The horizon is an integer, as \<open>parseInt\<close> returns it
  for the field of the form; it can be zero or negative.  The measure of the recursion
  is the number of iterations that remain.
\<close>

function series_loop :: "env \<Rightarrow> int \<Rightarrow> nat \<Rightarrow> locals \<Rightarrow> locals" where
  "series_loop e N_max_top N s =
     (if int N \<le> N_max_top then series_loop e N_max_top (Suc N) (loop_body e N s) else s)"
  by pat_completeness auto
termination
  by (relation "measure (\<lambda>(e, N_max_top, N, s). nat (N_max_top + 1 - int N))") auto

declare series_loop.simps [simp del]

text \<open>The four declarations before the loop, and the \<open>return\<close> statement after it.\<close>

definition init_locals :: locals where
  "init_locals = \<lparr>data = [], firstCost = None, lastCost = None, breakEven = None\<rparr>"

definition finish :: "env \<Rightarrow> locals \<Rightarrow> series_result" where
  "finish e s =
     \<lparr>res_data = data s, res_q = surv_q e,
      res_E_cycle_g = js_mul (E_cycle e) (Fin 1000),
      res_firstCost_g = js_mul (ToNumber (firstCost s)) (Fin 1000),
      res_lastCost_g = js_mul (ToNumber (lastCost s)) (Fin 1000),
      res_breakEven = breakEven s\<rparr>"

subsection \<open>\<open>computeSeries\<close> of the three-scenario dashboard (App.jsx)\<close>

text \<open>The statements before the loop: lines 27 to 35 of App.jsx.\<close>

definition computeSeries_env :: "jsnum params \<Rightarrow> constants \<Rightarrow> env" where
  "computeSeries_env params constants =
     (let T_FACTOR_PER_KM = js_div (T_FACTOR_PER_100KM constants) (Fin 100);
          E_fw = js_mul T_FACTOR_PER_KM (KM_ONE_WAY params);
          E_rev = js_mul T_FACTOR_PER_KM (KM_ONE_WAY params);
          E_mat_mup = js_mul (m_Al_mup constants) (EF_Al_prim constants);
          E_start' = js_add (js_add E_mat_mup (E_manu_mup params)) (E_fw_init constants);
          E_cycle' = js_add (js_add (js_add (E_clean constants) E_fw) (E_use constants)) E_rev;
          q = js_mul (Math_min (Fin 1) (Math_max (Fin 0) (p_ret params)))
                (js_sub (Fin 1) (Math_min (Fin 1) (Math_max (Fin 0) (p_scr params))))
      in \<lparr>E_start = E_start', E_cycle = E_cycle', E_EoL = E_EoL_mup params,
          E_single = E_single_shot constants, surv_q = q\<rparr>)"

definition computeSeries :: "jsnum params \<Rightarrow> constants \<Rightarrow> int \<Rightarrow> series_result" where
  "computeSeries params constants N_max_top =
     (let e = computeSeries_env params constants
      in finish e (series_loop e N_max_top 1 init_locals))"

subsection \<open>\<open>computeSeries\<close> of the variant with text fields (second implementation)\<close>

text \<open>
  The state of this variant holds strings for the text fields and numbers for the
  sliders.  \<open>parseFloat\<close> is a built-in of the language, not code of the dashboard:
  it is a parameter of the model.
  \<^verbatim>\<open>function toNum(v, fallback = 0) {
  const n = typeof v === "string" ? parseFloat(v) : v;
  return Number.isFinite(n) ? n : fallback; }\<close>
\<close>

datatype jsval = Str string | Num jsnum

definition toNum :: "(string \<Rightarrow> jsnum) \<Rightarrow> jsval \<Rightarrow> jsnum \<Rightarrow> jsnum" where
  "toNum parseFloat v fallback =
     (let n = (case v of Str s \<Rightarrow> parseFloat s | Num x \<Rightarrow> x)
      in if Number_isFinite n then n else fallback)"

definition computeSeries_toNum_env ::
    "(string \<Rightarrow> jsnum) \<Rightarrow> jsval params \<Rightarrow> constants \<Rightarrow> env" where
  "computeSeries_toNum_env parseFloat params constants =
     (let E_manu_mup' = toNum parseFloat (E_manu_mup params) (Fin 0);
          KM_ONE_WAY' = toNum parseFloat (KM_ONE_WAY params) (Fin 0);
          p_ret' = Math_min (Fin 1) (Math_max (Fin 0) (toNum parseFloat (p_ret params) (Fin 0)));
          p_scr' = Math_min (Fin 1) (Math_max (Fin 0) (toNum parseFloat (p_scr params) (Fin 0)));
          E_EoL_mup' = toNum parseFloat (E_EoL_mup params) (Fin 0);
          T_FACTOR_PER_KM = js_div (T_FACTOR_PER_100KM constants) (Fin 100);
          E_fw = js_mul T_FACTOR_PER_KM KM_ONE_WAY';
          E_rev = js_mul T_FACTOR_PER_KM KM_ONE_WAY';
          E_mat_mup = js_mul (m_Al_mup constants) (EF_Al_prim constants);
          E_start' = js_add (js_add E_mat_mup E_manu_mup') (E_fw_init constants);
          E_cycle' = js_add (js_add (js_add (E_clean constants) E_fw) (E_use constants)) E_rev;
          q = js_mul p_ret' (js_sub (Fin 1) p_scr')
      in \<lparr>E_start = E_start', E_cycle = E_cycle', E_EoL = E_EoL_mup',
          E_single = E_single_shot constants, surv_q = q\<rparr>)"

text \<open>The loop and the returned object are those of App.jsx, statement for statement.\<close>

definition computeSeries_toNum ::
    "(string \<Rightarrow> jsnum) \<Rightarrow> jsval params \<Rightarrow> constants \<Rightarrow> int \<Rightarrow> series_result" where
  "computeSeries_toNum parseFloat params constants N_max_top =
     (let e = computeSeries_toNum_env parseFloat params constants
      in finish e (series_loop e N_max_top 1 init_locals))"

subsection \<open>\<open>calc\<close> of the single-scenario dashboard (third implementation)\<close>

text \<open>
  The memoized closure reads the five inputs, the horizon and the constants from the
  component's state; they are the arguments of the model.  The two probabilities are
  states that start at 0.95 and 0.02 and that only a range input with \<open>min = 0\<close> and
  \<open>max = 1\<close> sets.  The closure does not clamp the two probabilities, pushes a fourth
  field \<open>MinCycle\<close>, and returns the costs in kg.  The fields \<open>cycle\<close>, \<open>MUP\<close>,
  \<open>SUP\<close> and \<open>MinCycle\<close> of a pushed object carry the prefix \<open>cp_\<close>.
\<close>

record chart_point =
  cp_cycle :: nat
  cp_MUP :: jsnum
  cp_SUP :: jsnum
  cp_MinCycle :: jsnum

record calc_locals =
  chartData :: "chart_point list"
  c_breakEven :: "nat option"
  c_firstCost :: "jsnum option"
  c_lastCost :: "jsnum option"

record calc_result =
  calc_q :: jsnum
  calc_E_cycle :: jsnum
  calc_firstCost :: "jsnum option"
  calc_lastCost :: "jsnum option"
  calc_breakEven :: "nat option"
  calc_chartData :: "chart_point list"
  g_single_shot :: jsnum
  g_cycle :: jsnum

definition calc_env :: "jsnum params \<Rightarrow> constants \<Rightarrow> env" where
  "calc_env params constants =
     (let T_FACTOR_PER_KM = js_div (T_FACTOR_PER_100KM constants) (Fin 100);
          E_fw = js_mul T_FACTOR_PER_KM (KM_ONE_WAY params);
          E_rev = js_mul T_FACTOR_PER_KM (KM_ONE_WAY params);
          E_mat_mup = js_mul (m_Al_mup constants) (EF_Al_prim constants);
          E_start' = js_add (js_add E_mat_mup (E_manu_mup params)) (E_fw_init constants);
          E_cycle' = js_add (js_add (js_add (E_clean constants) E_fw) (E_use constants)) E_rev;
          q = js_mul (p_ret params) (js_sub (Fin 1) (p_scr params))
      in \<lparr>E_start = E_start', E_cycle = E_cycle', E_EoL = E_EoL_mup params,
          E_single = E_single_shot constants, surv_q = q\<rparr>)"

definition calc_body :: "env \<Rightarrow> nat \<Rightarrow> calc_locals \<Rightarrow> calc_locals" where
  "calc_body e N s =
     (let a = amort e N;
          s1 = (if c_firstCost s = None then s\<lparr>c_firstCost := Some a\<rparr> else s);
          s2 = s1\<lparr>c_lastCost := Some a\<rparr>;
          s3 = s2\<lparr>chartData := chartData s2 @
                 [\<lparr>cp_cycle = N, cp_MUP = js_mul a (Fin 1000),
                   cp_SUP = js_mul (E_single e) (Fin 1000),
                   cp_MinCycle = js_mul (E_cycle e) (Fin 1000)\<rparr>]\<rparr>
      in if c_breakEven s3 = None \<and> js_le a (E_single e)
         then s3\<lparr>c_breakEven := Some N\<rparr> else s3)"

function calc_loop :: "env \<Rightarrow> int \<Rightarrow> nat \<Rightarrow> calc_locals \<Rightarrow> calc_locals" where
  "calc_loop e N_max_top N s =
     (if int N \<le> N_max_top then calc_loop e N_max_top (Suc N) (calc_body e N s) else s)"
  by pat_completeness auto
termination
  by (relation "measure (\<lambda>(e, N_max_top, N, s). nat (N_max_top + 1 - int N))") auto

declare calc_loop.simps [simp del]

definition calc :: "jsnum params \<Rightarrow> constants \<Rightarrow> int \<Rightarrow> calc_result" where
  "calc params constants N_max_top =
     (let e = calc_env params constants;
          s = calc_loop e N_max_top 1
                \<lparr>chartData = [], c_breakEven = None, c_firstCost = None, c_lastCost = None\<rparr>
      in \<lparr>calc_q = surv_q e, calc_E_cycle = E_cycle e,
          calc_firstCost = c_firstCost s, calc_lastCost = c_lastCost s,
          calc_breakEven = c_breakEven s, calc_chartData = chartData s,
          g_single_shot = js_mul (E_single e) (Fin 1000),
          g_cycle = js_mul (E_cycle e) (Fin 1000)\<rparr>)"

section \<open>The specification's reading of the engine\<close>

text \<open>
  The algorithm of the specification (its section 4.1, steps 1 to 7), written with the
  operations on JavaScript numbers, on the objects of the program:
  \<open>transport_per_km = transport_factor_per_100km / 100\<close>, forward and return transport
  \<open>transport_per_km * one_way_distance_km\<close> each,
  \<open>start_cost = mass_per_unit * emission_factor_primary + manufacturing_emissions +
  initial_logistics\<close>,
  \<open>cycle_cost = cleaning_emissions + forward_transport + use_phase_emissions +
  return_transport\<close>, \<open>clamp(x) = max(0, min(1, x))\<close>,
  \<open>q = clamp(return_probability) * (1 - clamp(scrap_probability))\<close> and
  \<open>amortized = (start_cost + U * cycle_cost + end_of_life_balance) / U\<close> for
  \<open>U = U(N, q)\<close>.
\<close>

definition spec_clamp_js :: "jsnum \<Rightarrow> jsnum" where
  "spec_clamp_js x = Math_max (Fin 0) (Math_min (Fin 1) x)"

definition spec_q_js :: "jsnum params \<Rightarrow> jsnum" where
  "spec_q_js sp = js_mul (spec_clamp_js (p_ret sp)) (js_sub (Fin 1) (spec_clamp_js (p_scr sp)))"

definition spec_transport_js :: "constants \<Rightarrow> jsnum params \<Rightarrow> jsnum" where
  "spec_transport_js k sp = js_mul (js_div (T_FACTOR_PER_100KM k) (Fin 100)) (KM_ONE_WAY sp)"

definition spec_start_cost_js :: "constants \<Rightarrow> jsnum params \<Rightarrow> jsnum" where
  "spec_start_cost_js k sp =
     js_add (js_add (js_mul (m_Al_mup k) (EF_Al_prim k)) (E_manu_mup sp)) (E_fw_init k)"

definition spec_cycle_cost_js :: "constants \<Rightarrow> jsnum params \<Rightarrow> jsnum" where
  "spec_cycle_cost_js k sp =
     js_add (js_add (js_add (E_clean k) (spec_transport_js k sp)) (E_use k))
       (spec_transport_js k sp)"

definition spec_amortized_js :: "constants \<Rightarrow> jsnum params \<Rightarrow> nat \<Rightarrow> jsnum" where
  "spec_amortized_js k sp N =
     js_div
       (js_add (js_add (spec_start_cost_js k sp)
                  (js_mul (U_eff_js N (spec_q_js sp)) (spec_cycle_cost_js k sp)))
          (E_EoL_mup sp))
       (U_eff_js N (spec_q_js sp))"

text \<open>
  The records and formulas of the specification over the reals, in exact arithmetic, and
  the embedding of a specification input into the program's objects.
\<close>

record PhysicalConstants =
  mass_per_unit :: real
  emission_factor_primary :: real
  initial_logistics :: real
  single_use_reference :: real
  use_phase_emissions :: real
  cleaning_emissions :: real
  transport_factor_per_100km :: real

record ScenarioParameters =
  manufacturing_emissions :: real
  one_way_distance_km :: real
  return_probability :: real
  scrap_probability :: real
  end_of_life_balance :: real

definition js_constants :: "PhysicalConstants \<Rightarrow> constants" where
  "js_constants k =
     \<lparr>m_Al_mup = Fin (mass_per_unit k), EF_Al_prim = Fin (emission_factor_primary k),
      E_fw_init = Fin (initial_logistics k), E_single_shot = Fin (single_use_reference k),
      E_use = Fin (use_phase_emissions k), E_clean = Fin (cleaning_emissions k),
      T_FACTOR_PER_100KM = Fin (transport_factor_per_100km k)\<rparr>"

definition js_params :: "ScenarioParameters \<Rightarrow> jsnum params" where
  "js_params sp =
     \<lparr>E_manu_mup = Fin (manufacturing_emissions sp), KM_ONE_WAY = Fin (one_way_distance_km sp),
      p_ret = Fin (return_probability sp), p_scr = Fin (scrap_probability sp),
      E_EoL_mup = Fin (end_of_life_balance sp)\<rparr>"

definition spec_clamp :: "real \<Rightarrow> real" where
  "spec_clamp x = max 0 (min 1 x)"

definition spec_q :: "ScenarioParameters \<Rightarrow> real" where
  "spec_q sp = spec_clamp (return_probability sp) * (1 - spec_clamp (scrap_probability sp))"

definition spec_U :: "nat \<Rightarrow> real \<Rightarrow> real" where
  "spec_U N q = (if q = 1 then real N else (1 - q ^ N) / (1 - q))"

definition spec_start_cost :: "PhysicalConstants \<Rightarrow> ScenarioParameters \<Rightarrow> real" where
  "spec_start_cost k sp =
     mass_per_unit k * emission_factor_primary k + manufacturing_emissions sp
       + initial_logistics k"

definition spec_cycle_cost :: "PhysicalConstants \<Rightarrow> ScenarioParameters \<Rightarrow> real" where
  "spec_cycle_cost k sp =
     cleaning_emissions k + use_phase_emissions k
       + 2 * (transport_factor_per_100km k / 100) * one_way_distance_km sp"

definition spec_amortized :: "PhysicalConstants \<Rightarrow> ScenarioParameters \<Rightarrow> nat \<Rightarrow> real" where
  "spec_amortized k sp N =
     (spec_start_cost k sp + spec_U N (spec_q sp) * spec_cycle_cost k sp
        + end_of_life_balance sp) / spec_U N (spec_q sp)"

text \<open>The expected case of the single-scenario dashboard, and the fixed constants.\<close>

definition expected_case :: ScenarioParameters where
  "expected_case =
     \<lparr>manufacturing_emissions = 0.0008, one_way_distance_km = 300,
      return_probability = 0.95, scrap_probability = 0.02,
      end_of_life_balance = - 0.0015\<rparr>"

definition fixed_constants :: PhysicalConstants where
  "fixed_constants =
     \<lparr>mass_per_unit = 0.00324, emission_factor_primary = 14.77,
      initial_logistics = 0.00037, single_use_reference = 0.00437,
      use_phase_emissions = 0, cleaning_emissions = 0.001,
      transport_factor_per_100km = 0.00037\<rparr>"

text \<open>An input whose break-even cycle is 2, for the fixed constants.\<close>

definition early_break_even :: ScenarioParameters where
  "early_break_even =
     \<lparr>manufacturing_emissions = 0, one_way_distance_km = 0, return_probability = 1,
      scrap_probability = 0, end_of_life_balance = - 0.044\<rparr>"

text \<open>The five parameters of the second implementation after \<open>toNum\<close> with fallback 0.\<close>

definition toNum_params :: "(string \<Rightarrow> jsnum) \<Rightarrow> jsval params \<Rightarrow> jsnum params" where
  "toNum_params parseFloat params =
     \<lparr>E_manu_mup = toNum parseFloat (E_manu_mup params) (Fin 0),
      KM_ONE_WAY = toNum parseFloat (KM_ONE_WAY params) (Fin 0),
      p_ret = toNum parseFloat (p_ret params) (Fin 0),
      p_scr = toNum parseFloat (p_scr params) (Fin 0),
      E_EoL_mup = toNum parseFloat (E_EoL_mup params) (Fin 0)\<rparr>"

text \<open>A state of the second implementation with parameters that are not finite numbers.\<close>

definition nonfinite_state :: "jsval params" where
  "nonfinite_state =
     \<lparr>E_manu_mup = Num NaN, KM_ONE_WAY = Str ''abc'', p_ret = Num PInf,
      p_scr = Num (Fin (1 / 4)), E_EoL_mup = Num NInf\<rparr>"

text \<open>The values that a slider with range \<open>[0, 1]\<close> can set.\<close>

definition in_slider_range :: "jsnum \<Rightarrow> bool" where
  "in_slider_range v = (case v of Fin x \<Rightarrow> 0 \<le> x \<and> x \<le> 1 | _ \<Rightarrow> False)"

text \<open>A number is a finite number within the tolerance \<open>tol\<close> of the real \<open>x\<close>.\<close>

definition js_near :: "real \<Rightarrow> jsnum \<Rightarrow> real \<Rightarrow> bool" where
  "js_near tol v x = (case v of Fin y \<Rightarrow> \<bar>y - x\<bar> \<le> tol | _ \<Rightarrow> False)"

text \<open>Helpers for stating the results of the loop.\<close>

definition point_at :: "env \<Rightarrow> nat \<Rightarrow> point" where
  "point_at e k =
     \<lparr>cycle = k, MUP_g = js_mul (amort e k) (Fin 1000),
      SUP_g = js_mul (E_single e) (Fin 1000)\<rparr>"

definition chart_point_at :: "env \<Rightarrow> nat \<Rightarrow> chart_point" where
  "chart_point_at e k =
     \<lparr>cp_cycle = k, cp_MUP = js_mul (amort e k) (Fin 1000),
      cp_SUP = js_mul (E_single e) (Fin 1000), cp_MinCycle = js_mul (E_cycle e) (Fin 1000)\<rparr>"

definition crosses :: "env \<Rightarrow> nat \<Rightarrow> bool" where
  "crosses e k = js_le (amort e k) (E_single e)"

section \<open>Results of the loops\<close>

lemma upt_horizon_step: "int N \<le> M \<Longrightarrow> [N..<nat (M + 1)] = N # [Suc N..<nat (M + 1)]"
  by (simp add: upt_conv_Cons)

lemma loop_body_data: "data (loop_body e N s) = data s @ [point_at e N]"
  by (simp add: loop_body_def point_at_def Let_def)

lemma loop_body_firstCost:
  "firstCost (loop_body e N s) =
     (case firstCost s of None \<Rightarrow> Some (amort e N) | Some a \<Rightarrow> Some a)"
  by (simp add: loop_body_def Let_def split: option.splits)

lemma loop_body_lastCost: "lastCost (loop_body e N s) = Some (amort e N)"
  by (simp add: loop_body_def Let_def)

lemma loop_body_breakEven:
  "breakEven (loop_body e N s) =
     (case breakEven s of None \<Rightarrow> (if crosses e N then Some N else None) | Some b \<Rightarrow> Some b)"
  by (simp add: loop_body_def crosses_def Let_def split: option.splits)

lemma series_loop_data:
  "data (series_loop e M N s) = data s @ map (point_at e) [N..<nat (M + 1)]"
proof (induction e M N s rule: series_loop.induct)
  case (1 e M N s)
  show ?case
  proof (cases "int N \<le> M")
    case True
    with 1 show ?thesis
      by (subst series_loop.simps) (simp add: loop_body_data upt_horizon_step del: upt.simps)
  next
    case False
    then show ?thesis
      by (subst series_loop.simps) simp
  qed
qed

lemma series_loop_firstCost:
  "firstCost (series_loop e M N s) =
     (case firstCost s of Some a \<Rightarrow> Some a
      | None \<Rightarrow> if int N \<le> M then Some (amort e N) else None)"
proof (induction e M N s rule: series_loop.induct)
  case (1 e M N s)
  show ?case
  proof (cases "int N \<le> M")
    case True
    with 1 show ?thesis
      by (subst series_loop.simps) (simp add: loop_body_firstCost split: option.splits)
  next
    case False
    then show ?thesis
      by (subst series_loop.simps) (simp split: option.splits)
  qed
qed

lemma series_loop_lastCost:
  "lastCost (series_loop e M N s) =
     (if int N \<le> M then Some (amort e (nat M)) else lastCost s)"
proof (induction e M N s rule: series_loop.induct)
  case (1 e M N s)
  show ?case
  proof (cases "int N \<le> M")
    case True
    show ?thesis
    proof (cases "int (Suc N) \<le> M")
      case True
      with 1 \<open>int N \<le> M\<close> show ?thesis
        by (subst series_loop.simps) simp
    next
      case False
      with \<open>int N \<le> M\<close> have "nat M = N" by linarith
      with 1 \<open>int N \<le> M\<close> False show ?thesis
        by (subst series_loop.simps) (simp add: loop_body_lastCost)
    qed
  next
    case False
    then show ?thesis
      by (subst series_loop.simps) simp
  qed
qed

lemma series_loop_breakEven:
  "breakEven (series_loop e M N s) =
     (case breakEven s of Some b \<Rightarrow> Some b
      | None \<Rightarrow> find (crosses e) [N..<nat (M + 1)])"
proof (induction e M N s rule: series_loop.induct)
  case (1 e M N s)
  show ?case
  proof (cases "int N \<le> M")
    case True
    with 1 show ?thesis
      by (subst series_loop.simps)
         (simp add: loop_body_breakEven upt_horizon_step split: option.splits del: upt.simps)
  next
    case False
    then show ?thesis
      by (subst series_loop.simps) (simp split: option.splits)
  qed
qed

text \<open>The same four facts for the loop of \<open>calc\<close>.\<close>

lemma calc_body_chartData: "chartData (calc_body e N s) = chartData s @ [chart_point_at e N]"
  by (simp add: calc_body_def chart_point_at_def Let_def)

lemma calc_body_firstCost:
  "c_firstCost (calc_body e N s) =
     (case c_firstCost s of None \<Rightarrow> Some (amort e N) | Some a \<Rightarrow> Some a)"
  by (simp add: calc_body_def Let_def split: option.splits)

lemma calc_body_lastCost: "c_lastCost (calc_body e N s) = Some (amort e N)"
  by (simp add: calc_body_def Let_def)

lemma calc_body_breakEven:
  "c_breakEven (calc_body e N s) =
     (case c_breakEven s of None \<Rightarrow> (if crosses e N then Some N else None)
      | Some b \<Rightarrow> Some b)"
  by (simp add: calc_body_def crosses_def Let_def split: option.splits)

lemma calc_loop_chartData:
  "chartData (calc_loop e M N s) = chartData s @ map (chart_point_at e) [N..<nat (M + 1)]"
proof (induction e M N s rule: calc_loop.induct)
  case (1 e M N s)
  then show ?case
    by (subst calc_loop.simps)
       (simp add: calc_body_chartData upt_horizon_step del: upt.simps)
qed

lemma calc_loop_firstCost:
  "c_firstCost (calc_loop e M N s) =
     (case c_firstCost s of Some a \<Rightarrow> Some a
      | None \<Rightarrow> if int N \<le> M then Some (amort e N) else None)"
proof (induction e M N s rule: calc_loop.induct)
  case (1 e M N s)
  then show ?case
    by (subst calc_loop.simps) (simp add: calc_body_firstCost split: option.splits)
qed

lemma calc_loop_breakEven:
  "c_breakEven (calc_loop e M N s) =
     (case c_breakEven s of Some b \<Rightarrow> Some b
      | None \<Rightarrow> find (crosses e) [N..<nat (M + 1)])"
proof (induction e M N s rule: calc_loop.induct)
  case (1 e M N s)
  then show ?case
    by (subst calc_loop.simps)
       (simp add: calc_body_breakEven upt_horizon_step split: option.splits del: upt.simps)
qed

text \<open>The first element of a range that satisfies a predicate.\<close>

lemma find_upt_Some:
  "find P [a..<b] = Some x \<longleftrightarrow> a \<le> x \<and> x < b \<and> P x \<and> (\<forall>k. a \<le> k \<and> k < x \<longrightarrow> \<not> P k)"
proof (induction "b - a" arbitrary: a)
  case 0
  then show ?case by auto
next
  case (Suc n)
  then have ab: "a < b" and n: "n = b - Suc a" by linarith+
  have step: "[a..<b] = a # [Suc a..<b]" using ab by (simp add: upt_conv_Cons)
  show ?case
  proof (cases "P a")
    case True
    then show ?thesis using ab step by (auto simp del: upt.simps)
  next
    case False
    have "find P [a..<b] = find P [Suc a..<b]" using False step by simp
    also have "\<dots> = Some x \<longleftrightarrow>
        Suc a \<le> x \<and> x < b \<and> P x \<and> (\<forall>k. Suc a \<le> k \<and> k < x \<longrightarrow> \<not> P k)"
      using Suc.hyps(1) [OF n] .
    finally show ?thesis
      using False by (metis Suc_leD Suc_leI le_neq_implies_less)
  qed
qed

lemma find_upt_None:
  "find P [a..<b] = None \<longleftrightarrow> (\<forall>k. a \<le> k \<and> k < b \<longrightarrow> \<not> P k)"
  by (auto simp: find_None_iff)

section \<open>Arithmetic on finite numbers\<close>

lemma js_pow_Fin: "js_pow (Fin x) n = Fin (x ^ n)"
  by (cases n) simp_all

lemma js_sub_Fin: "js_sub (Fin x) (Fin y) = Fin (x - y)"
  by (simp add: js_sub_def)

lemma clamp_Fin: "Math_min (Fin 1) (Math_max (Fin 0) (Fin x)) = Fin (spec_clamp x)"
  by (simp add: Math_min_def Math_max_def spec_clamp_def max_def min_def)

lemma clamp_cases:
  "Math_min (Fin 1) (Math_max (Fin 0) v) = NaN \<or>
   (\<exists>y. Math_min (Fin 1) (Math_max (Fin 0) v) = Fin y \<and> 0 \<le> y \<and> y \<le> 1)"
  by (cases v) (auto simp: Math_min_def Math_max_def)

lemma spec_clamp_range: "0 \<le> spec_clamp x \<and> spec_clamp x \<le> 1"
  by (simp add: spec_clamp_def)

lemma unit_product_range:
  fixes a b :: real
  assumes "0 \<le> a" "a \<le> 1" "0 \<le> b" "b \<le> 1"
  shows "0 \<le> a * (1 - b) \<and> a * (1 - b) \<le> 1"
proof
  show "0 \<le> a * (1 - b)" using assms by simp
  have "a * (1 - b) \<le> 1 * 1"
    using assms by (intro mult_mono) auto
  then show "a * (1 - b) \<le> 1" by simp
qed

lemma spec_q_range: "0 \<le> spec_q sp \<and> spec_q sp \<le> 1"
  unfolding spec_q_def by (intro unit_product_range) (simp_all add: spec_clamp_range)

lemma U_eff_js_Fin: "U_eff_js N (Fin q) = Fin (spec_U N q)"
  by (simp add: U_eff_js_def spec_U_def js_strict_eq_def js_pow_Fin js_sub_Fin)

lemma spec_U_sum: "spec_U N q = (\<Sum>i<N. q ^ i)"
  by (simp add: spec_U_def sum_gp_strict)

lemma spec_U_lower:
  assumes "0 \<le> q" "1 \<le> N"
  shows "1 \<le> spec_U N q"
proof -
  from assms(2) obtain n where N: "N = Suc n" by (cases N) auto
  have "0 \<le> (\<Sum>i<n. q ^ Suc i)"
    using assms(1) by (intro sum_nonneg) simp
  then show ?thesis
    unfolding spec_U_sum N by (simp add: sum.lessThan_Suc_shift del: power_Suc sum.lessThan_Suc)
qed

lemma spec_U_upper:
  assumes "0 \<le> q" "q \<le> 1"
  shows "spec_U N q \<le> real N"
proof -
  have "(\<Sum>i<N. q ^ i) \<le> (\<Sum>i<N. 1)"
    using assms by (intro sum_mono) (simp add: power_le_one)
  then show ?thesis by (simp add: spec_U_sum)
qed

lemma U_eff_js_NaN: "U_eff_js (Suc n) NaN = NaN"
  by (simp add: U_eff_js_def js_strict_eq_def js_sub_def)

text \<open>The quantities before the loop, on an input of finite numbers.\<close>

lemma computeSeries_env_finite:
  "computeSeries_env (js_params sp) (js_constants k) =
     \<lparr>E_start = Fin (spec_start_cost k sp), E_cycle = Fin (spec_cycle_cost k sp),
      E_EoL = Fin (end_of_life_balance sp), E_single = Fin (single_use_reference k),
      surv_q = Fin (spec_q sp)\<rparr>"
  by (simp add: computeSeries_env_def js_params_def js_constants_def clamp_Fin js_sub_Fin
      spec_start_cost_def spec_cycle_cost_def spec_q_def Let_def)

lemma amort_finite:
  assumes "spec_U N q \<noteq> 0"
  shows "amort \<lparr>E_start = Fin st, E_cycle = Fin cy, E_EoL = Fin eol, E_single = Fin ss,
                surv_q = Fin q\<rparr> N = Fin ((st + spec_U N q * cy + eol) / spec_U N q)"
  using assms by (simp add: amort_def U_eff_js_Fin Let_def)

text \<open>NaN propagates, whatever the other operand is.\<close>

lemma js_add_NaN: "js_add a NaN = NaN" "js_add NaN a = NaN"
  by (cases a; simp)+

lemma js_mul_NaN: "js_mul a NaN = NaN" "js_mul NaN a = NaN"
  by (cases a; simp)+

lemma js_div_NaN: "js_div a NaN = NaN" "js_div NaN a = NaN"
  by (cases a; simp)+

lemma js_sub_NaN: "js_sub a NaN = NaN" "js_sub NaN a = NaN"
  by (simp_all add: js_sub_def js_add_NaN)

lemma clamp_NaN: "Math_min (Fin 1) (Math_max (Fin 0) NaN) = NaN"
  by (simp add: Math_min_def Math_max_def)

lemma amort_NaN:
  assumes "1 \<le> N"
    and "E_start e = NaN \<or> E_cycle e = NaN \<or> E_EoL e = NaN \<or> surv_q e = NaN"
  shows "amort e N = NaN"
proof -
  from assms(1) obtain n where N: "N = Suc n" by (cases N) auto
  from assms(2) show ?thesis
    by (auto simp: amort_def Let_def N U_eff_js_NaN js_add_NaN js_mul_NaN js_div_NaN)
qed

text \<open>The two orders of clamping agree, and clamping leaves a slider value as it is.\<close>

lemma clamp_order: "Math_min (Fin 1) (Math_max (Fin 0) v) = spec_clamp_js v"
  by (cases v) (auto simp: spec_clamp_js_def Math_min_def Math_max_def)

lemma clamp_slider: "in_slider_range v \<Longrightarrow> spec_clamp_js v = v"
  by (cases v) (auto simp: in_slider_range_def spec_clamp_js_def Math_min_def Math_max_def)

section \<open>The claims\<close>

text \<open>
  C2.  The effective utilization is the closed form of the geometric sum,
  \<open>U(N, q) = (1 - q^N) / (1 - q)\<close> for \<open>q \<noteq> 1\<close>, and \<open>U(N, 1) = N\<close> exactly: the case
  \<open>q = 1\<close> is a branch of its own, so \<open>U(N, 1)\<close> is a finite number, never NaN or an
  infinity.  In both cases the value is the sum of the powers \<open>q^i\<close>, \<open>i < N\<close>.
\<close>

theorem U_eff_js_closed_form:
  "(q \<noteq> 1 \<longrightarrow> U_eff_js N (Fin q) = Fin ((1 - q ^ N) / (1 - q)))
   \<and> U_eff_js N (Fin 1) = Fin (real N)
   \<and> Number_isFinite (U_eff_js N (Fin 1))
   \<and> U_eff_js N (Fin q) = Fin (\<Sum>i<N. q ^ i)"
proof (intro conjI impI)
  assume "q \<noteq> 1"
  then show "U_eff_js N (Fin q) = Fin ((1 - q ^ N) / (1 - q))"
    by (simp add: U_eff_js_def js_strict_eq_def js_pow_Fin js_sub_Fin)
next
  show one: "U_eff_js N (Fin 1) = Fin (real N)"
    by (simp add: U_eff_js_def js_strict_eq_def)
  show "Number_isFinite (U_eff_js N (Fin 1))"
    unfolding one by (simp add: Number_isFinite_def)
  show "U_eff_js N (Fin q) = Fin (\<Sum>i<N. q ^ i)"
    by (simp only: U_eff_js_Fin spec_U_sum)
qed

theorem U_eff_js_closed_form_witness:
  "(1 / 2 :: real) \<noteq> 1
   \<and> U_eff_js 3 (Fin (1 / 2)) = Fin (7 / 4)
   \<and> U_eff_js 3 (Fin 1) = Fin 3
   \<and> Number_isFinite (U_eff_js 3 (Fin 1))"
  using U_eff_js_closed_form [of "1 / 2" 3] by (simp add: power3_eq_cube Number_isFinite_def)

text \<open>
  C3.  For every \<open>q\<close> in \<open>[0, 1]\<close> and every \<open>N \<ge> 1\<close>, \<open>1 \<le> U(N, q) \<le> N\<close>.  Hence the
  divisor of \<open>amort = E_total_lifetime / U\<close> is never zero: in \<open>computeSeries\<close>, where
  \<open>q\<close> is the product of the clamped probabilities, no iteration divides by zero,
  whatever the parameters are.
\<close>

theorem U_eff_js_bounds:
  assumes "1 \<le> N"
  shows "(0 \<le> q \<and> q \<le> 1 \<longrightarrow> (\<exists>u. U_eff_js N (Fin q) = Fin u \<and> 1 \<le> u \<and> u \<le> real N))
         \<and> U_eff_js N (surv_q (computeSeries_env params constants)) \<noteq> Fin 0"
proof
  show "0 \<le> q \<and> q \<le> 1 \<longrightarrow> (\<exists>u. U_eff_js N (Fin q) = Fin u \<and> 1 \<le> u \<and> u \<le> real N)"
    using assms by (auto simp: U_eff_js_Fin spec_U_lower spec_U_upper)
next
  from assms obtain n where N: "N = Suc n" by (cases N) auto
  let ?a = "Math_min (Fin 1) (Math_max (Fin 0) (p_ret params))"
  let ?b = "Math_min (Fin 1) (Math_max (Fin 0) (p_scr params))"
  have q: "surv_q (computeSeries_env params constants) = js_mul ?a (js_sub (Fin 1) ?b)"
    by (simp add: computeSeries_env_def Let_def)
  consider "?a = NaN \<or> ?b = NaN"
    | x y where "?a = Fin x" "0 \<le> x" "x \<le> 1" "?b = Fin y" "0 \<le> y" "y \<le> 1"
    using clamp_cases [of "p_ret params"] clamp_cases [of "p_scr params"] by blast
  then show "U_eff_js N (surv_q (computeSeries_env params constants)) \<noteq> Fin 0"
  proof cases
    case 1
    then have "js_mul ?a (js_sub (Fin 1) ?b) = NaN"
      by (cases ?a; cases ?b) (auto simp: js_sub_def)
    then show ?thesis by (simp add: q N U_eff_js_NaN)
  next
    case 2
    then have "js_mul ?a (js_sub (Fin 1) ?b) = Fin (x * (1 - y))"
      by (simp add: js_sub_Fin)
    moreover have "1 \<le> spec_U N (x * (1 - y))"
      using 2 assms unit_product_range [of x y] by (intro spec_U_lower) auto
    ultimately show ?thesis by (simp add: q U_eff_js_Fin)
  qed
qed

theorem U_eff_js_bounds_witness:
  "(1 :: nat) \<le> 3 \<and> (0 :: real) \<le> 1 / 2 \<and> (1 / 2 :: real) \<le> 1
   \<and> (\<exists>u. U_eff_js 3 (Fin (1 / 2)) = Fin u \<and> 1 \<le> u \<and> u \<le> real (3 :: nat))
   \<and> U_eff_js 3 (surv_q (computeSeries_env (js_params expected_case)
        (js_constants fixed_constants))) \<noteq> Fin 0"
proof -
  have h: "(1 :: nat) \<le> 3" by simp
  show ?thesis
    using U_eff_js_bounds [OF h, of "1 / 2" "js_params expected_case"
        "js_constants fixed_constants"] by simp
qed

text \<open>The series and the break-even cycle that \<open>computeSeries\<close> and \<open>calc\<close> return.\<close>

lemma computeSeries_data:
  "res_data (computeSeries params constants h) =
     map (point_at (computeSeries_env params constants)) [1..<nat (h + 1)]"
  by (simp add: computeSeries_def finish_def series_loop_data init_locals_def Let_def)

lemma computeSeries_breakEven:
  "res_breakEven (computeSeries params constants h) =
     find (crosses (computeSeries_env params constants)) [1..<nat (h + 1)]"
  by (simp add: computeSeries_def finish_def series_loop_breakEven init_locals_def Let_def)

lemma calc_chartData:
  "calc_chartData (calc params constants h) =
     map (chart_point_at (calc_env params constants)) [1..<nat (h + 1)]"
  by (simp add: calc_def calc_loop_chartData Let_def)

lemma calc_breakEven:
  "calc_breakEven (calc params constants h) =
     find (crosses (calc_env params constants)) [1..<nat (h + 1)]"
  by (simp add: calc_def calc_loop_breakEven Let_def)

lemma nth_horizon:
  assumes "1 \<le> N" "int N \<le> h"
  shows "map f [1..<nat (h + 1)] ! (N - 1) = f N"
proof -
  have "N - 1 < length [1..<nat (h + 1)]" using assms by simp
  then have "map f [1..<nat (h + 1)] ! (N - 1) = f ([1..<nat (h + 1)] ! (N - 1))"
    by (rule nth_map)
  also have "[1..<nat (h + 1)] ! (N - 1) = N"
    using assms by (subst nth_upt) auto
  finally show ?thesis .
qed

lemma amort_spec:
  assumes "1 \<le> N"
  shows "amort \<lparr>E_start = Fin (spec_start_cost k sp), E_cycle = Fin (spec_cycle_cost k sp),
                E_EoL = Fin (end_of_life_balance sp), E_single = Fin (single_use_reference k),
                surv_q = Fin (spec_q sp)\<rparr> N = Fin (spec_amortized k sp N)"
proof -
  have "1 \<le> spec_U N (spec_q sp)"
    using assms spec_q_range [of sp] by (intro spec_U_lower) auto
  then have "spec_U N (spec_q sp) \<noteq> 0" by linarith
  then show ?thesis
    unfolding spec_amortized_def by (rule amort_finite)
qed

text \<open>
  The quantities before the loop are those of the specification's algorithm, and so is
  the amortized value of an iteration; \<open>calc\<close> computes the same quantities when
  its two probabilities are slider values.
\<close>

lemma computeSeries_env_spec:
  "computeSeries_env params constants =
     \<lparr>E_start = spec_start_cost_js constants params,
      E_cycle = spec_cycle_cost_js constants params,
      E_EoL = E_EoL_mup params, E_single = E_single_shot constants,
      surv_q = spec_q_js params\<rparr>"
  by (simp add: computeSeries_env_def spec_start_cost_js_def spec_cycle_cost_js_def
      spec_transport_js_def spec_q_js_def clamp_order Let_def)

lemma amort_spec_js:
  "amort (computeSeries_env params constants) N = spec_amortized_js constants params N"
  by (simp add: computeSeries_env_spec amort_def spec_amortized_js_def Let_def)

lemma calc_env_slider:
  assumes "in_slider_range (p_ret params)" and "in_slider_range (p_scr params)"
  shows "calc_env params constants = computeSeries_env params constants"
  using assms
  by (simp add: calc_env_def computeSeries_env_def clamp_order clamp_slider Let_def)

text \<open>
  In the exact arithmetic of the model, on finite numbers, the amortized value of the
  specification's algorithm is the real number of its formula, with
  \<open>cycle_cost = cleaning_emissions + use_phase_emissions + 2 * (transport_factor_per_100km
  / 100) * one_way_distance_km\<close>.  Doubles follow this up to rounding, as long as no
  intermediate result overflows.
\<close>

lemma spec_amortized_js_exact:
  assumes "1 \<le> N"
  shows "spec_amortized_js (js_constants k) (js_params sp) N = Fin (spec_amortized k sp N)"
  unfolding amort_spec_js [symmetric] computeSeries_env_finite
  by (rule amort_spec [OF assms])

text \<open>
  C1.  For every input and every \<open>N\<close> from 1 to the horizon, the entry that
  \<open>computeSeries\<close> records for cycle \<open>N\<close> holds the amortized value
  \<open>(start_cost + U(N,q) * cycle_cost + end_of_life_balance) / U(N,q)\<close>, with
  \<open>start_cost\<close>, \<open>cycle_cost\<close> (forward and return transport over the same distance)
  and \<open>q = clamp(return_probability) * (1 - clamp(scrap_probability))\<close> as the
  specification computes them.  The entry holds the value in grams, that is, times 1000.
  The entry of \<open>calc\<close> holds the same value; \<open>calc\<close> does not clamp, and its two
  probabilities are slider values, which clamping does not change.
\<close>

theorem recorded_amortized_formula:
  assumes "1 \<le> N" and "int N \<le> h"
  shows "res_data (computeSeries params constants h) ! (N - 1) =
           \<lparr>cycle = N, MUP_g = js_mul (spec_amortized_js constants params N) (Fin 1000),
            SUP_g = js_mul (E_single_shot constants) (Fin 1000)\<rparr>
         \<and> (in_slider_range (p_ret params) \<and> in_slider_range (p_scr params) \<longrightarrow>
            calc_chartData (calc params constants h) ! (N - 1) =
              \<lparr>cp_cycle = N,
               cp_MUP = js_mul (spec_amortized_js constants params N) (Fin 1000),
               cp_SUP = js_mul (E_single_shot constants) (Fin 1000),
               cp_MinCycle = js_mul (spec_cycle_cost_js constants params) (Fin 1000)\<rparr>)"
proof (intro conjI impI)
  have "res_data (computeSeries params constants h) ! (N - 1) =
          point_at (computeSeries_env params constants) N"
    unfolding computeSeries_data by (rule nth_horizon [OF assms])
  then show "res_data (computeSeries params constants h) ! (N - 1) =
           \<lparr>cycle = N, MUP_g = js_mul (spec_amortized_js constants params N) (Fin 1000),
            SUP_g = js_mul (E_single_shot constants) (Fin 1000)\<rparr>"
    by (simp add: point_at_def amort_spec_js) (simp add: computeSeries_env_spec)
next
  assume "in_slider_range (p_ret params) \<and> in_slider_range (p_scr params)"
  then have env: "calc_env params constants = computeSeries_env params constants"
    by (intro calc_env_slider) auto
  have "calc_chartData (calc params constants h) ! (N - 1) =
          chart_point_at (calc_env params constants) N"
    unfolding calc_chartData by (rule nth_horizon [OF assms])
  then show "calc_chartData (calc params constants h) ! (N - 1) =
              \<lparr>cp_cycle = N,
               cp_MUP = js_mul (spec_amortized_js constants params N) (Fin 1000),
               cp_SUP = js_mul (E_single_shot constants) (Fin 1000),
               cp_MinCycle = js_mul (spec_cycle_cost_js constants params) (Fin 1000)\<rparr>"
    by (simp add: chart_point_at_def env amort_spec_js) (simp add: computeSeries_env_spec)
qed

theorem recorded_amortized_formula_witness:
  "(1 :: nat) \<le> 2 \<and> int 2 \<le> 50
   \<and> in_slider_range (p_ret (js_params expected_case))
   \<and> in_slider_range (p_scr (js_params expected_case))
   \<and> cycle (res_data (computeSeries (js_params expected_case)
        (js_constants fixed_constants) 50) ! 1) = 2
   \<and> js_near (1 / 10 ^ 6) (MUP_g (res_data (computeSeries (js_params expected_case)
        (js_constants fixed_constants) 50) ! 1)) 27.831497
   \<and> cp_cycle (calc_chartData (calc (js_params expected_case)
        (js_constants fixed_constants) 50) ! 1) = 2
   \<and> js_near (1 / 10 ^ 6) (cp_MUP (calc_chartData (calc (js_params expected_case)
        (js_constants fixed_constants) 50) ! 1)) 27.831497
   \<and> js_near (1 / 10 ^ 6) (cp_MinCycle (calc_chartData (calc (js_params expected_case)
        (js_constants fixed_constants) 50) ! 1)) 3.22"
proof -
  have h1: "(1 :: nat) \<le> 2" and h2: "int 2 \<le> 50" by simp_all
  have rng: "in_slider_range (p_ret (js_params expected_case)) \<and>
      in_slider_range (p_scr (js_params expected_case))"
    by (simp add: in_slider_range_def js_params_def expected_case_def)
  have a: "spec_amortized_js (js_constants fixed_constants) (js_params expected_case) 2
      = Fin (2687131 / 96550000)"
    by (simp add: spec_amortized_js_exact spec_amortized_def spec_U_def spec_q_def
        spec_clamp_def spec_start_cost_def spec_cycle_cost_def fixed_constants_def
        expected_case_def power2_eq_square)
  have c: "spec_cycle_cost_js (js_constants fixed_constants) (js_params expected_case)
      = Fin 0.00322"
    by (simp add: spec_cycle_cost_js_def spec_transport_js_def js_constants_def js_params_def
        fixed_constants_def expected_case_def)
  show ?thesis
    using recorded_amortized_formula [OF h1 h2, of "js_params expected_case"
        "js_constants fixed_constants"] rng
    by (simp add: a c js_near_def)
qed

lemma expected_first_amortized:
  "spec_amortized fixed_constants expected_case (Suc 0) = 0.0507448"
  by (simp add: spec_amortized_def spec_U_def spec_q_def spec_clamp_def spec_start_cost_def
      spec_cycle_cost_def fixed_constants_def expected_case_def)

text \<open>
  C4.  The break-even cycle that is returned, when there is one, is the smallest \<open>N\<close>
  from 1 to the horizon whose amortized value is \<open>\<le>\<close> the single-use reference: it
  satisfies the condition and no earlier cycle does, so a later iteration has not
  replaced it.  When no \<open>N\<close> from 1 to the horizon satisfies the condition, the result
  is \<open>null\<close> (\<open>None\<close>), no number.  This holds for \<open>computeSeries\<close> and for \<open>calc\<close>,
  where \<open>crosses e N\<close> is the test \<open>amort <= E_single_shot\<close> of iteration \<open>N\<close>.
\<close>

theorem break_even_first_crossing:
  "(res_breakEven (computeSeries params constants h) = Some b \<longleftrightarrow>
      1 \<le> b \<and> int b \<le> h \<and> crosses (computeSeries_env params constants) b \<and>
      (\<forall>k. 1 \<le> k \<and> k < b \<longrightarrow> \<not> crosses (computeSeries_env params constants) k))
   \<and> (res_breakEven (computeSeries params constants h) = None \<longleftrightarrow>
      (\<forall>k. 1 \<le> k \<and> int k \<le> h \<longrightarrow> \<not> crosses (computeSeries_env params constants) k))
   \<and> (calc_breakEven (calc params constants h) = Some b \<longleftrightarrow>
      1 \<le> b \<and> int b \<le> h \<and> crosses (calc_env params constants) b \<and>
      (\<forall>k. 1 \<le> k \<and> k < b \<longrightarrow> \<not> crosses (calc_env params constants) k))
   \<and> (calc_breakEven (calc params constants h) = None \<longleftrightarrow>
      (\<forall>k. 1 \<le> k \<and> int k \<le> h \<longrightarrow> \<not> crosses (calc_env params constants) k))"
proof -
  have bound: "k < nat (h + 1) \<longleftrightarrow> int k \<le> h" for k :: nat
    by linarith
  show ?thesis
    unfolding computeSeries_breakEven calc_breakEven find_upt_Some find_upt_None bound
    by simp
qed

lemma early_break_even_env:
  "computeSeries_env (js_params early_break_even) (js_constants fixed_constants) =
     \<lparr>E_start = Fin 0.0482248, E_cycle = Fin 0.001, E_EoL = Fin (- 0.044),
      E_single = Fin 0.00437, surv_q = Fin 1\<rparr>"
  by (simp add: computeSeries_env_finite spec_start_cost_def spec_cycle_cost_def spec_q_def
      spec_clamp_def early_break_even_def fixed_constants_def)

lemma early_break_even_crosses:
  "\<not> crosses (computeSeries_env (js_params early_break_even) (js_constants fixed_constants)) (Suc 0)"
  "crosses (computeSeries_env (js_params early_break_even) (js_constants fixed_constants)) 2"
  by (simp_all add: early_break_even_env crosses_def amort_def U_eff_js_def js_strict_eq_def)

theorem break_even_first_crossing_witness:
  "res_breakEven (computeSeries (js_params early_break_even) (js_constants fixed_constants) 3)
     = Some 2
   \<and> crosses (computeSeries_env (js_params early_break_even) (js_constants fixed_constants)) 2
   \<and> \<not> crosses (computeSeries_env (js_params early_break_even) (js_constants fixed_constants)) 1"
proof -
  have one: "k = Suc 0" if "1 \<le> k \<and> k < 2" for k :: nat
    using that by linarith
  have "\<forall>k. 1 \<le> k \<and> k < 2 \<longrightarrow>
      \<not> crosses (computeSeries_env (js_params early_break_even) (js_constants fixed_constants)) k"
    using one early_break_even_crosses(1) by blast
  then show ?thesis
    using break_even_first_crossing [of "js_params early_break_even"
        "js_constants fixed_constants" 3 2] early_break_even_crosses
    by simp
qed

text \<open>
  C5.  For a horizon \<open>\<ge> 1\<close> the series has exactly horizon entries, their cycle indices
  are 1, 2, ..., horizon in this order, and every entry carries the same reference
  value, the single-use reference in grams (\<open>E_single_shot * 1000\<close>).
\<close>

theorem series_shape:
  assumes "1 \<le> h"
  shows "int (length (res_data (computeSeries params constants h))) = h
         \<and> map cycle (res_data (computeSeries params constants h)) = [1..<nat h + 1]
         \<and> (\<forall>pt \<in> set (res_data (computeSeries params constants h)).
              SUP_g pt = js_mul (E_single_shot constants) (Fin 1000))"
proof (intro conjI)
  show "int (length (res_data (computeSeries params constants h))) = h"
    using assms by (simp add: computeSeries_data)
  have "map cycle (res_data (computeSeries params constants h)) = map (\<lambda>k. k) [1..<nat (h + 1)]"
    unfolding computeSeries_data by (simp add: point_at_def comp_def)
  moreover have "nat (h + 1) = nat h + 1" using assms by linarith
  ultimately show "map cycle (res_data (computeSeries params constants h)) = [1..<nat h + 1]"
    by simp
  show "\<forall>pt \<in> set (res_data (computeSeries params constants h)).
              SUP_g pt = js_mul (E_single_shot constants) (Fin 1000)"
    unfolding computeSeries_data
    by (auto simp: point_at_def computeSeries_env_def Let_def)
qed

theorem series_shape_witness:
  "(1 :: int) \<le> 3
   \<and> int (length (res_data (computeSeries (js_params expected_case)
        (js_constants fixed_constants) 3))) = 3
   \<and> map cycle (res_data (computeSeries (js_params expected_case)
        (js_constants fixed_constants) 3)) = [1, 2, 3]
   \<and> SUP_g (res_data (computeSeries (js_params expected_case)
        (js_constants fixed_constants) 3) ! 0) = Fin 4.37
   \<and> SUP_g (res_data (computeSeries (js_params expected_case)
        (js_constants fixed_constants) 3) ! 2) = Fin 4.37"
proof -
  let ?xs = "res_data (computeSeries (js_params expected_case) (js_constants fixed_constants) 3)"
  have h: "(1 :: int) \<le> 3" by simp
  have upt: "[Suc 0..<4] = [Suc 0, 2, 3]" by code_simp
  note shape = series_shape [OF h, of "js_params expected_case" "js_constants fixed_constants"]
  from shape have len: "length ?xs = 3" by simp
  have "?xs ! 0 \<in> set ?xs" and "?xs ! 2 \<in> set ?xs"
    using len by simp_all
  with shape have "SUP_g (?xs ! 0) = js_mul (E_single_shot (js_constants fixed_constants)) (Fin 1000)"
    and "SUP_g (?xs ! 2) = js_mul (E_single_shot (js_constants fixed_constants)) (Fin 1000)"
    by blast+
  with shape show ?thesis
    by (simp add: upt js_constants_def fixed_constants_def)
qed

text \<open>
  C10.  For a horizon below 1, \<open>computeSeries\<close> (in both of its versions) signals no
  error.  The body of the loop does not run: the series is empty, the break-even cycle
  is \<open>null\<close>, and the first and the last cost are computed from the accumulators that
  are still \<open>null\<close>, which \<open>* 1000\<close> turns into 0.
\<close>

theorem horizon_below_one:
  assumes "h < 1"
  shows "computeSeries params constants h =
           \<lparr>res_data = [], res_q = surv_q (computeSeries_env params constants),
            res_E_cycle_g = js_mul (E_cycle (computeSeries_env params constants)) (Fin 1000),
            res_firstCost_g = js_mul (ToNumber None) (Fin 1000),
            res_lastCost_g = js_mul (ToNumber None) (Fin 1000),
            res_breakEven = None\<rparr>
         \<and> js_mul (ToNumber None) (Fin 1000) = Fin 0
         \<and> computeSeries_toNum parseFloat sparams constants h =
           \<lparr>res_data = [],
            res_q = surv_q (computeSeries_toNum_env parseFloat sparams constants),
            res_E_cycle_g =
              js_mul (E_cycle (computeSeries_toNum_env parseFloat sparams constants)) (Fin 1000),
            res_firstCost_g = js_mul (ToNumber None) (Fin 1000),
            res_lastCost_g = js_mul (ToNumber None) (Fin 1000),
            res_breakEven = None\<rparr>"
proof -
  have "series_loop e h 1 init_locals = init_locals" for e
    using assms by (subst series_loop.simps) simp
  then show ?thesis
    by (simp add: computeSeries_def computeSeries_toNum_def finish_def init_locals_def
        ToNumber_def Let_def)
qed

theorem horizon_below_one_witness:
  "(0 :: int) < 1
   \<and> computeSeries (js_params expected_case) (js_constants fixed_constants) 0 =
       \<lparr>res_data = [], res_q = Fin 0.931, res_E_cycle_g = Fin 3.22,
        res_firstCost_g = Fin 0, res_lastCost_g = Fin 0, res_breakEven = None\<rparr>"
proof -
  have h: "(0 :: int) < 1" by simp
  have q: "spec_q expected_case = 0.931"
    by (simp add: spec_q_def spec_clamp_def expected_case_def)
  have cy: "spec_cycle_cost fixed_constants expected_case = 0.00322"
    by (simp add: spec_cycle_cost_def fixed_constants_def expected_case_def)
  show ?thesis
    using horizon_below_one [OF h, of "js_params expected_case" "js_constants fixed_constants"]
    by (simp add: computeSeries_env_finite q cy ToNumber_def)
qed

text \<open>The first cost that \<open>computeSeries\<close> returns, in grams.\<close>

lemma computeSeries_firstCost_g:
  "1 \<le> h \<Longrightarrow> res_firstCost_g (computeSeries params constants h) =
     js_mul (amort (computeSeries_env params constants) 1) (Fin 1000)"
  by (simp add: computeSeries_def finish_def series_loop_firstCost init_locals_def
      ToNumber_def Let_def)

text \<open>
  The expected case in the exact arithmetic of the model; the doubles of the code differ
  from these values by rounding (\<open>q\<close> is \<open>0.9309999999999999\<close> there).
\<close>

lemma expected_case_exact:
  "res_q (computeSeries (js_params expected_case) (js_constants fixed_constants) 50) = Fin 0.931"
  "amort (computeSeries_env (js_params expected_case) (js_constants fixed_constants)) 1
     = Fin 0.0507448"
  "res_firstCost_g (computeSeries (js_params expected_case) (js_constants fixed_constants) 50)
     = Fin 50.7448"
  "MUP_g (res_data (computeSeries (js_params expected_case) (js_constants fixed_constants) 50)
     ! 0) = Fin 50.7448"
proof -
  let ?e = "computeSeries_env (js_params expected_case) (js_constants fixed_constants)"
  have q: "spec_q expected_case = 0.931"
    by (simp add: spec_q_def spec_clamp_def expected_case_def)
  show a: "amort ?e 1 = Fin 0.0507448"
    by (simp add: computeSeries_env_finite amort_spec expected_first_amortized)
  have "res_data (computeSeries (js_params expected_case) (js_constants fixed_constants) 50)
          ! (1 - 1) = point_at ?e 1"
    unfolding computeSeries_data by (rule nth_horizon) simp_all
  with a show "MUP_g (res_data (computeSeries (js_params expected_case)
      (js_constants fixed_constants) 50) ! 0) = Fin 50.7448"
    by (simp add: point_at_def)
  have "res_firstCost_g (computeSeries (js_params expected_case)
      (js_constants fixed_constants) 50) = js_mul (amort ?e 1) (Fin 1000)"
    by (rule computeSeries_firstCost_g) simp
  with a show "res_firstCost_g (computeSeries (js_params expected_case)
      (js_constants fixed_constants) 50) = Fin 50.7448"
    by simp
  show "res_q (computeSeries (js_params expected_case) (js_constants fixed_constants) 50)
      = Fin 0.931"
    by (simp add: computeSeries_def finish_def computeSeries_env_finite q Let_def)
qed

text \<open>
  C8, as amended.  With the constants and the expected-case parameters of section 8 and
  horizon 50, \<open>q\<close> is \<open>0.95 * 0.98 = 0.931\<close> and the amortized value at \<open>N = 1\<close> is
  approximately 0.0507448 kg, that is 50.74 g (not 50.73 g), within floating-point
  tolerance: \<open>q\<close> and the value in kg lie within \<open>10^-9\<close>, the returned first cost and
  the first entry of the series, in grams, within \<open>10^-6\<close> of these numbers.
\<close>

theorem expected_case_first_cost:
  "js_near (1 / 10 ^ 9)
     (res_q (computeSeries (js_params expected_case) (js_constants fixed_constants) 50)) 0.931
   \<and> js_near (1 / 10 ^ 9)
     (amort (computeSeries_env (js_params expected_case) (js_constants fixed_constants)) 1)
     0.0507448
   \<and> js_near (1 / 10 ^ 6)
     (res_firstCost_g (computeSeries (js_params expected_case) (js_constants fixed_constants) 50))
     50.7448
   \<and> js_near (1 / 10 ^ 6)
     (MUP_g (res_data (computeSeries (js_params expected_case) (js_constants fixed_constants) 50)
        ! 0)) 50.7448"
  unfolding expected_case_exact by (simp add: js_near_def)

text \<open>
  The value at \<open>N = 1\<close> is further than 0.00001 kg from 0.05073 kg, and the returned
  first cost further than 0.01 g from 50.73 g, which no floating-point tolerance covers.
\<close>

theorem expected_case_first_cost_counterexample:
  "\<not> js_near (1 / 10 ^ 5)
       (amort (computeSeries_env (js_params expected_case) (js_constants fixed_constants)) 1)
       0.05073
   \<and> \<not> js_near (1 / 10 ^ 2)
       (res_firstCost_g (computeSeries (js_params expected_case)
          (js_constants fixed_constants) 50)) 50.73"
  unfolding expected_case_exact by (simp add: js_near_def)



text \<open>The second implementation computes on the parameters that \<open>toNum\<close> returns.\<close>

lemma computeSeries_toNum_env_params:
  "computeSeries_toNum_env parseFloat sparams constants =
     computeSeries_env (toNum_params parseFloat sparams) constants"
  by (simp add: computeSeries_toNum_env_def computeSeries_env_def toNum_params_def Let_def)

lemma computeSeries_toNum_params:
  "computeSeries_toNum parseFloat sparams constants h =
     computeSeries (toNum_params parseFloat sparams) constants h"
  by (simp add: computeSeries_toNum_def computeSeries_def computeSeries_toNum_env_params)



text \<open>A parameter that is NaN makes every amortized value NaN.\<close>

lemma computeSeries_env_NaN:
  assumes "E_manu_mup params = NaN \<or> KM_ONE_WAY params = NaN \<or> p_ret params = NaN \<or>
           p_scr params = NaN \<or> E_EoL_mup params = NaN"
  shows "E_start (computeSeries_env params constants) = NaN \<or>
         E_cycle (computeSeries_env params constants) = NaN \<or>
         E_EoL (computeSeries_env params constants) = NaN \<or>
         surv_q (computeSeries_env params constants) = NaN"
  using assms
  by (auto simp: computeSeries_env_def Let_def clamp_NaN js_add_NaN js_mul_NaN js_sub_NaN)

lemma calc_env_NaN:
  assumes "E_manu_mup params = NaN \<or> KM_ONE_WAY params = NaN \<or> p_ret params = NaN \<or>
           p_scr params = NaN \<or> E_EoL_mup params = NaN"
  shows "E_start (calc_env params constants) = NaN \<or>
         E_cycle (calc_env params constants) = NaN \<or>
         E_EoL (calc_env params constants) = NaN \<or>
         surv_q (calc_env params constants) = NaN"
  using assms
  by (auto simp: calc_env_def Let_def js_add_NaN js_mul_NaN js_sub_NaN)

lemma point_at_NaN:
  assumes "1 \<le> N"
    and "E_start e = NaN \<or> E_cycle e = NaN \<or> E_EoL e = NaN \<or> surv_q e = NaN"
  shows "MUP_g (point_at e N) = NaN" and "cp_MUP (chart_point_at e N) = NaN"
  by (simp_all add: point_at_def chart_point_at_def amort_NaN [OF assms])

text \<open>
  C7, as amended.  For an input in which some numeric parameter is not a finite number,
  compute does not fail with an InvalidInput error: no implementation rejects a
  parameter.  \<open>computeSeries\<close> and \<open>calc\<close> do not check their parameters and return the
  series with all its entries; with a parameter that is NaN, every amortized value in
  it is NaN.  The version with \<open>toNum\<close> replaces every parameter that is not a finite
  number (NaN, an infinity, a string that does not parse to a finite number) by 0, and
  then computes as \<open>computeSeries\<close> does on the parameters that \<open>toNum\<close> returns.
\<close>

theorem nonfinite_parameters_not_rejected:
  "(\<not> Number_isFinite x \<longrightarrow> toNum parseFloat (Num x) (Fin 0) = Fin 0)
   \<and> (\<not> Number_isFinite (parseFloat s) \<longrightarrow> toNum parseFloat (Str s) (Fin 0) = Fin 0)
   \<and> Number_isFinite (toNum parseFloat v (Fin 0))
   \<and> computeSeries_toNum parseFloat sparams constants h =
       computeSeries (toNum_params parseFloat sparams) constants h
   \<and> length (res_data (computeSeries_toNum parseFloat sparams constants h)) = nat h
   \<and> length (res_data (computeSeries params constants h)) = nat h
   \<and> length (calc_chartData (calc params constants h)) = nat h
   \<and> (E_manu_mup params = NaN \<or> KM_ONE_WAY params = NaN \<or> p_ret params = NaN \<or>
       p_scr params = NaN \<or> E_EoL_mup params = NaN \<longrightarrow>
        (\<forall>pt \<in> set (res_data (computeSeries params constants h)). MUP_g pt = NaN)
        \<and> (\<forall>pt \<in> set (calc_chartData (calc params constants h)). cp_MUP pt = NaN))"
proof -
  have c1: "\<not> Number_isFinite x \<longrightarrow> toNum parseFloat (Num x) (Fin 0) = Fin 0"
    by (simp add: toNum_def)
  have c2: "\<not> Number_isFinite (parseFloat s) \<longrightarrow> toNum parseFloat (Str s) (Fin 0) = Fin 0"
    by (simp add: toNum_def)
  have c3: "Number_isFinite (toNum parseFloat v (Fin 0))"
    by (simp add: toNum_def Number_isFinite_def Let_def)
  have c4: "computeSeries_toNum parseFloat sparams constants h =
       computeSeries (toNum_params parseFloat sparams) constants h"
    by (rule computeSeries_toNum_params)
  have c5: "length (res_data (computeSeries_toNum parseFloat sparams constants h)) = nat h"
    by (simp add: computeSeries_toNum_params computeSeries_data)
  have c6: "length (res_data (computeSeries params constants h)) = nat h"
    by (simp add: computeSeries_data)
  have c7: "length (calc_chartData (calc params constants h)) = nat h"
    by (simp add: calc_chartData)
  have c8: "E_manu_mup params = NaN \<or> KM_ONE_WAY params = NaN \<or> p_ret params = NaN \<or>
       p_scr params = NaN \<or> E_EoL_mup params = NaN \<longrightarrow>
        (\<forall>pt \<in> set (res_data (computeSeries params constants h)). MUP_g pt = NaN)
        \<and> (\<forall>pt \<in> set (calc_chartData (calc params constants h)). cp_MUP pt = NaN)"
  proof (intro impI conjI)
    assume nan: "E_manu_mup params = NaN \<or> KM_ONE_WAY params = NaN \<or> p_ret params = NaN \<or>
       p_scr params = NaN \<or> E_EoL_mup params = NaN"
    show "\<forall>pt \<in> set (res_data (computeSeries params constants h)). MUP_g pt = NaN"
      unfolding computeSeries_data
      using point_at_NaN(1) [OF _ computeSeries_env_NaN [OF nan]] by auto
    show "\<forall>pt \<in> set (calc_chartData (calc params constants h)). cp_MUP pt = NaN"
      unfolding calc_chartData
      using point_at_NaN(2) [OF _ calc_env_NaN [OF nan]] by auto
  qed
  show ?thesis
    by (intro conjI) (rule c1 c2 c3 c4 c5 c6 c7 c8)+
qed

theorem nonfinite_parameters_not_rejected_witness:
  "\<not> Number_isFinite NaN \<and> toNum (\<lambda>s. NaN) (Num NaN) (Fin 0) = Fin 0
   \<and> \<not> Number_isFinite ((\<lambda>s. NaN) ''abc'') \<and> toNum (\<lambda>s. NaN) (Str ''abc'') (Fin 0) = Fin 0
   \<and> length (res_data (computeSeries_toNum (\<lambda>s. NaN) nonfinite_state
        (js_constants fixed_constants) 2)) = 2
   \<and> E_manu_mup ((js_params expected_case)\<lparr>E_manu_mup := NaN\<rparr>) = NaN
   \<and> length (res_data (computeSeries ((js_params expected_case)\<lparr>E_manu_mup := NaN\<rparr>)
        (js_constants fixed_constants) 2)) = 2
   \<and> MUP_g (res_data (computeSeries ((js_params expected_case)\<lparr>E_manu_mup := NaN\<rparr>)
        (js_constants fixed_constants) 2) ! 1) = NaN
   \<and> cp_MUP (calc_chartData (calc ((js_params expected_case)\<lparr>E_manu_mup := NaN\<rparr>)
        (js_constants fixed_constants) 2) ! 0) = NaN"
proof -
  let ?p = "(js_params expected_case)\<lparr>E_manu_mup := NaN\<rparr>"
  let ?c = "js_constants fixed_constants"
  let ?xs = "res_data (computeSeries ?p ?c 2)"
  let ?ys = "calc_chartData (calc ?p ?c 2)"
  note th = nonfinite_parameters_not_rejected [of NaN "\<lambda>s. NaN" "''abc''" "Num NaN"
      nonfinite_state ?c 2 ?p]
  have nf: "\<not> Number_isFinite NaN" by (simp add: Number_isFinite_def)
  have nan: "E_manu_mup ?p = NaN" by simp
  from th have lx: "length ?xs = nat 2" and ly: "length ?ys = nat 2"
    and lz: "length (res_data (computeSeries_toNum (\<lambda>s. NaN) nonfinite_state ?c 2)) = nat 2"
    by blast+
  from lx ly have "?xs ! 1 \<in> set ?xs" and "?ys ! 0 \<in> set ?ys" by simp_all
  moreover from th nan have "\<forall>pt \<in> set ?xs. MUP_g pt = NaN" and "\<forall>pt \<in> set ?ys. cp_MUP pt = NaN"
    by blast+
  ultimately have "MUP_g (?xs ! 1) = NaN" and "cp_MUP (?ys ! 0) = NaN" by blast+
  moreover from th nf have "toNum (\<lambda>s. NaN) (Num NaN) (Fin 0) = Fin 0"
    and "toNum (\<lambda>s. NaN) (Str ''abc'') (Fin 0) = Fin 0"
    by blast+
  ultimately show ?thesis using nf lx lz by simp
qed

text \<open>
  \<open>calc\<close> does not reject a manufacturing value that is NaN, which is what clearing the
  field of the single-scenario dashboard sets: it returns a series whose first amortized
  value is NaN.
\<close>

theorem nonfinite_parameter_counterexample:
  "cp_MUP (calc_chartData (calc ((js_params expected_case)\<lparr>E_manu_mup := NaN\<rparr>)
      (js_constants fixed_constants) 50) ! 0) = NaN"
proof -
  let ?p = "(js_params expected_case)\<lparr>E_manu_mup := NaN\<rparr>"
  have "calc_chartData (calc ?p (js_constants fixed_constants) 50) ! (1 - 1)
          = chart_point_at (calc_env ?p (js_constants fixed_constants)) 1"
    unfolding calc_chartData by (rule nth_horizon) simp_all
  moreover have "cp_MUP (chart_point_at (calc_env ?p (js_constants fixed_constants)) 1) = NaN"
    by (rule point_at_NaN(2) [OF _ calc_env_NaN]) simp_all
  ultimately show ?thesis by simp
qed

end
